theory Spec2Isabelle
  imports Main "HOL-Library.Word"
begin

unbundle bit_operations_syntax

section \<open>Data model of \<open>repo.go\<close>\<close>

text \<open>
  Go's \<open>error\<close> values. \<open>ErrChecksumMismatch\<close> is the sentinel that \<open>Sync\<close>
  compares against; \<open>ErrLength\<close> and \<open>InvalidByteError\<close> are the two errors of
  \<open>encoding/hex\<close>; \<open>ErrNotExist\<close> and \<open>ErrExist\<close> are the \<open>os\<close> errors the model
  names; \<open>Failure\<close> is any other error of a collaborator, with its message. The last
  four are the errors \<open>Sync\<close> builds itself with \<open>fmt.Errorf\<close>.
\<close>

datatype error =
    ErrChecksumMismatch
  | ErrLength
  | InvalidByteError char
  | ErrNotExist
  | ErrExist
  | Failure string
  | FailedToCacheMetadata string error
  | ErrorCreatingLocalPackagePath string error
  | ErrorReadingPackages
  | ErrorReadingPrimaryDB error

text \<open>\<open>time.Time\<close> is kept as a number (nanoseconds); \<open>Sync\<close> never reads it.\<close>

type_synonym Time = int

record Repo =
  ID :: string
  Name :: string
  Architecture :: string
  BaseURL :: string
  CachePath :: string
  Checksum :: string
  DeleteRemoved :: bool
  GPGCheck :: bool
  GPGKey :: string
  Groupfile :: string
  IncludeSources :: bool
  LocalPath :: string
  MirrorURL :: string
  NewOnly :: bool
  MaxDate :: Time
  MinDate :: Time
  YumfileLineNo :: int
  YumfilePath :: string

text \<open>
  A \<open>PackageEntry\<close> of the primary database, as \<open>Sync\<close> reads it: the results of its
  methods \<open>LocationHref()\<close>, \<open>PackageSize()\<close> (an \<open>int64\<close>, only ever compared and
  converted), \<open>Checksum()\<close> (a string or an error) and \<open>ChecksumType()\<close>.
\<close>

record PackageEntry =
  LocationHref :: string
  PackageSize :: int
  Checksum :: "error + string"
  ChecksumType :: string

text \<open>An \<open>os.FileInfo\<close> of the directory listing: \<open>Name()\<close> and \<open>Size()\<close> (an \<open>int64\<close>).\<close>

record FileInfo =
  Name :: string
  Size :: int

text \<open>
  The label of a request, \<open>fmt.Sprintf("[ %d / %d ] %v", i+1, len(missing), p)\<close>, kept
  structured; \<open>NoLabel\<close> is the empty label of a fresh request.
\<close>

datatype label = NoLabel | JobLabel nat nat PackageEntry

text \<open>A \<open>grab.Request\<close>: the fields \<open>Sync\<close> sets, and the checksum of \<open>SetChecksum\<close>.\<close>

record Request =
  URL :: string
  Label :: label
  Filename :: string
  Size :: "64 word"
  ExpectedChecksum :: "(string \<times> 8 word list) option"

text \<open>A \<open>grab.Response\<close>: its request, the file it wrote and its error (\<open>None\<close> is nil).\<close>

record Response =
  Request :: Request
  Filename :: string
  Error :: "error option"

text \<open>
  What \<open>Sync\<close> prints. \<open>Errorf\<close> takes the error it is given (\<open>None\<close> is a nil error)
  and one of the messages below; \<open>Dprintf\<close> takes a debug message.
\<close>

datatype errmsg =
    FailedToComputeChecksum PackageEntry
  | ExistingFileFailedChecksumValidation PackageEntry
  | ErrorValidatingChecksum PackageEntry
  | ExistingFileIsLarger "64 word" "64 word" PackageEntry
  | ErrorRequestingPackage PackageEntry
  | ErrorReadingChecksum PackageEntry
  | ErrorDecodingChecksum PackageEntry
  | ErrorDownloading label
  | ErrorReadingForGPGCheck label
  | GPGCheckValidationFailed label
  | ErrorDeleting label

datatype dbgmsg =
    Caching string string
  | LoadingPackageMetadata
  | FoundPackages nat
  | CheckingForExistingPackages string
  | ExistingFileIsIncomplete PackageEntry
  | ScheduledPackages nat "64 word"
  | InsertingPackages nat

datatype event = Errorf "error option" errmsg | Dprintf dbgmsg

text \<open>How a call of \<open>Sync\<close> ends: it returns nil, returns an error, or panics.\<close>

datatype completion = ReturnedNil | Returned error | Panicked error

text \<open>
  The local filesystem: the file stored under each path, if any. The data of a file is
  opaque (\<open>'d\<close>); only the collaborators read it.
\<close>

type_synonym 'd fs = "string \<Rightarrow> 'd option"


section \<open>The collaborators of \<open>Sync\<close>\<close>

text \<open>
  \<open>Sync\<close> and \<open>CacheLocal\<close> call functions whose code is outside \<open>repo.go\<close>: other
  files of the package (\<open>OpenKeyRing\<close>, \<open>NewCache\<close>, \<open>NewRepoCache\<close>, \<open>Update\<close>,
  \<open>PrimaryDB\<close>, \<open>Packages\<close>, \<open>FilterPackages\<close>, \<open>ValidateFileChecksum\<close>,
  \<open>urljoin\<close>, \<open>createrepo\<close>, the constant \<open>DownloadThreads\<close>) and libraries
  (\<open>os\<close>, \<open>ioutil\<close>, \<open>filepath\<close>, \<open>grab\<close>, \<open>rpm\<close>). They are parameters of
  the model, one field each; nothing is assumed about what they compute. A function that
  may write takes the filesystem and returns the new one; a function that only reads
  takes the filesystem; the others are pure.

  \<open>grab_transfer\<close> is what the download client does with one request (the transfer,
  its streaming checksum check, the file it leaves). \<open>open_denied\<close> and
  \<open>remove_denied\<close> say for which existing files \<open>os.Open\<close> and \<open>os.Remove\<close> fail,
  and with which error.
\<close>

record ('d, 'k, 'c, 'r, 'p, 'm) env =
  OpenKeyRing :: "'d fs \<Rightarrow> string \<Rightarrow> error + 'k"
  NewCache :: "'d fs \<Rightarrow> string \<Rightarrow> (error + 'c) \<times> 'd fs"
  NewRepoCache :: "'d fs \<Rightarrow> 'c \<Rightarrow> Repo \<Rightarrow> (error + 'r) \<times> 'd fs"
  RepoCache_Update :: "'d fs \<Rightarrow> 'r \<Rightarrow> (error + 'r) \<times> 'd fs"
  RepoCache_PrimaryDB :: "'d fs \<Rightarrow> 'r \<Rightarrow> error + 'p"
  PrimaryDB_Packages :: "'d fs \<Rightarrow> 'p \<Rightarrow> error + PackageEntry list"
  FilterPackages :: "Repo \<Rightarrow> PackageEntry list \<Rightarrow> PackageEntry list"
  ValidateFileChecksum :: "'d fs \<Rightarrow> string \<Rightarrow> string \<Rightarrow> string \<Rightarrow> error option"
  urljoin :: "string \<Rightarrow> string \<Rightarrow> string"
  createrepo :: "'d fs \<Rightarrow> string \<Rightarrow> error option \<times> 'd fs"
  DownloadThreads :: nat
  os_MkdirAll :: "'d fs \<Rightarrow> string \<Rightarrow> error option \<times> 'd fs"
  ioutil_ReadDir :: "'d fs \<Rightarrow> string \<Rightarrow> error + FileInfo list"
  filepath_Join :: "string \<Rightarrow> string \<Rightarrow> string"
  filepath_Glob :: "'d fs \<Rightarrow> string \<Rightarrow> error + string list"
  grab_NewRequest :: "string \<Rightarrow> error + Request"
  grab_transfer :: "'d fs \<Rightarrow> Request \<Rightarrow> Response \<times> 'd fs"
  rpm_GPGCheck :: "'d \<Rightarrow> 'k option \<Rightarrow> error option"
  rpm_OpenPackageFile :: "'d fs \<Rightarrow> string \<Rightarrow> error + 'm"
  open_denied :: "string \<Rightarrow> error option"
  remove_denied :: "string \<Rightarrow> error option"

section \<open>Standard library functions modelled in full\<close>

text \<open>
  \<open>filepath.Base\<close> on Unix: the empty path gives \<open>"."\<close>; trailing slashes are
  stripped; what follows the last remaining slash is the result; a path of slashes only
  gives \<open>"/"\<close>.
\<close>

definition Base :: "string \<Rightarrow> string" where
  "Base path =
     (if path = [] then ''.''
      else
        let stripped = rev (dropWhile (\<lambda>ch. ch = CHR ''/'') (rev path));
            element = rev (takeWhile (\<lambda>ch. ch \<noteq> CHR ''/'') (rev stripped))
        in if element = [] then ''/'' else element)"

text \<open>
  \<open>hex.DecodeString\<close>: the value of one hexadecimal digit (\<open>reverseHexTable\<close>), then
  the bytes pair by pair. The first character that is no digit gives
  \<open>InvalidByteError\<close>; a trailing single digit gives \<open>ErrLength\<close>.
\<close>

definition fromHexChar :: "char \<Rightarrow> 8 word option" where
  "fromHexChar ch =
     (let n = of_char ch :: nat in
      if 48 \<le> n \<and> n \<le> 57 then Some (of_nat (n - 48))
      else if 97 \<le> n \<and> n \<le> 102 then Some (of_nat (n - 97 + 10))
      else if 65 \<le> n \<and> n \<le> 70 then Some (of_nat (n - 65 + 10))
      else None)"

fun hex_DecodeString :: "string \<Rightarrow> error + 8 word list" where
  "hex_DecodeString [] = Inr []"
| "hex_DecodeString [p] =
     (case fromHexChar p of None \<Rightarrow> Inl (InvalidByteError p) | Some a \<Rightarrow> Inl ErrLength)"
| "hex_DecodeString (p # q # rest) =
     (case fromHexChar p of
        None \<Rightarrow> Inl (InvalidByteError p)
      | Some a \<Rightarrow>
          (case fromHexChar q of
             None \<Rightarrow> Inl (InvalidByteError q)
           | Some b \<Rightarrow>
               (case hex_DecodeString rest of
                  Inl err \<Rightarrow> Inl err
                | Inr bytes \<Rightarrow> Inr ((push_bit 4 a OR b) # bytes))))"

text \<open>\<open>os.IsExist\<close>: whether the error says that the file already exists.\<close>

fun os_IsExist :: "error \<Rightarrow> bool" where
  "os_IsExist ErrExist = True"
| "os_IsExist _ = False"

text \<open>
  \<open>os.Open\<close> gives the file under the path, unless there is none or the read is
  denied. \<open>os.Remove\<close> deletes the file under the path and leaves every other path as
  it was, unless there is none or the deletion is denied; then nothing changes.
\<close>

definition os_Open :: "('d, 'k, 'c, 'r, 'p, 'm) env \<Rightarrow> 'd fs \<Rightarrow> string \<Rightarrow> error + 'd" where
  "os_Open E fs path =
     (case fs path of
        None \<Rightarrow> Inl ErrNotExist
      | Some f \<Rightarrow> (case open_denied E path of Some err \<Rightarrow> Inl err | None \<Rightarrow> Inr f))"

definition os_Remove :: "('d, 'k, 'c, 'r, 'p, 'm) env \<Rightarrow> 'd fs \<Rightarrow> string \<Rightarrow> error option \<times> 'd fs" where
  "os_Remove E fs path =
     (case fs path of
        None \<Rightarrow> (Some ErrNotExist, fs)
      | Some f \<Rightarrow>
          (case remove_denied E path of
             Some err \<Rightarrow> (Some err, fs)
           | None \<Rightarrow> (None, fs(path := None))))"

section \<open>\<open>Sync\<close>, phase by phase\<close>

subsection \<open>Lines 145 to 181: the search of the local files for one package\<close>

text \<open>
  The inner loop over \<open>files\<close>. The result is the flag \<open>found\<close> and what the loop
  printed. Every \<open>break\<close> ends the recursion; the branch of an incomplete file prints
  and goes on with the next file. At line 175 \<open>Errorf\<close> is given the function's \<open>err\<close>,
  which is nil there.
\<close>

fun search_local ::
  "('d, 'k, 'c, 'r, 'p, 'm) env \<Rightarrow> 'd fs \<Rightarrow> PackageEntry \<Rightarrow> string \<Rightarrow> string \<Rightarrow>
     FileInfo list \<Rightarrow> bool \<times> event list" where
  "search_local E fs p package_filename package_path [] = (False, [])"
| "search_local E fs p package_filename package_path (fi # files) =
     (if FileInfo.Name fi = package_filename then
        if FileInfo.Size fi = PackageSize p then
          (case PackageEntry.Checksum p of
             Inl err \<Rightarrow> (False, [Errorf (Some err) (FailedToComputeChecksum p)])
           | Inr csum \<Rightarrow>
               (case ValidateFileChecksum E fs package_path csum (ChecksumType p) of
                  Some err \<Rightarrow>
                    if err = ErrChecksumMismatch
                    then (False, [Errorf (Some err) (ExistingFileFailedChecksumValidation p)])
                    else (False, [Errorf (Some err) (ErrorValidatingChecksum p)])
                | None \<Rightarrow> (True, [])))
        else if FileInfo.Size fi > PackageSize p then
          (False, [Errorf None (ExistingFileIsLarger (word_of_int (FileInfo.Size fi))
                                  (word_of_int (PackageSize p)) p)])
        else
          (let (found, printed) = search_local E fs p package_filename package_path files
           in (found, Dprintf (ExistingFileIsIncomplete p) # printed))
      else search_local E fs p package_filename package_path files)"

subsection \<open>Lines 139 to 191: the list of missing packages\<close>

text \<open>
  The outer loop, with its three variables: \<open>missing\<close>, \<open>totalsize\<close> (a \<open>uint64\<close>,
  so the sum wraps) and what was printed.
\<close>

fun missing_loop ::
  "('d, 'k, 'c, 'r, 'p, 'm) env \<Rightarrow> 'd fs \<Rightarrow> string \<Rightarrow> FileInfo list \<Rightarrow> PackageEntry list \<Rightarrow>
     PackageEntry list \<times> 64 word \<times> event list \<Rightarrow> PackageEntry list \<times> 64 word \<times> event list" where
  "missing_loop E fs packagedir files [] acc = acc"
| "missing_loop E fs packagedir files (p # packages) (missing, totalsize, printed) =
     (let package_filename = Base (LocationHref p);
          package_path = filepath_Join E packagedir (Base (LocationHref p));
          (found, out) = search_local E fs p package_filename package_path files
      in if \<not> found
         then missing_loop E fs packagedir files packages
                (missing @ [p], totalsize + word_of_int (PackageSize p), printed @ out)
         else missing_loop E fs packagedir files packages (missing, totalsize, printed @ out))"

definition find_missing ::
  "('d, 'k, 'c, 'r, 'p, 'm) env \<Rightarrow> 'd fs \<Rightarrow> string \<Rightarrow> FileInfo list \<Rightarrow> PackageEntry list \<Rightarrow>
     PackageEntry list \<times> event list" where
  "find_missing E fs packagedir files packages =
     (let (missing, totalsize, printed) =
            missing_loop E fs packagedir files packages
              ([], 0, [Dprintf (CheckingForExistingPackages packagedir)])
      in (missing, printed @ [Dprintf (ScheduledPackages (length missing) totalsize)]))"


subsection \<open>Lines 194 to 216: the download requests\<close>

text \<open>
  The body of the loop for the package at index \<open>i\<close> of \<open>missing\<close> (\<open>len_missing\<close> is
  \<open>len(missing)\<close>): either the request that is appended to \<open>reqs\<close>, or the one line
  that \<open>Errorf\<close> prints when no request is appended.
\<close>

definition new_request ::
  "('d, 'k, 'c, 'r, 'p, 'm) env \<Rightarrow> Repo \<Rightarrow> string \<Rightarrow> nat \<Rightarrow> nat \<Rightarrow> PackageEntry \<Rightarrow>
     event + Request" where
  "new_request E c packagedir len_missing i p =
     (case grab_NewRequest E (urljoin E (BaseURL c) (LocationHref p)) of
        Inl err \<Rightarrow> Inl (Errorf (Some err) (ErrorRequestingPackage p))
      | Inr req \<Rightarrow>
          (let req1 = req\<lparr>Label := JobLabel (i + 1) len_missing p,
                         Request.Filename := filepath_Join E packagedir (Base (LocationHref p)),
                         Request.Size := word_of_int (PackageSize p)\<rparr>
           in case PackageEntry.Checksum p of
                Inl err \<Rightarrow> Inl (Errorf (Some err) (ErrorReadingChecksum p))
              | Inr csum \<Rightarrow>
                  (case hex_DecodeString csum of
                     Inl err \<Rightarrow> Inl (Errorf (Some err) (ErrorDecodingChecksum p))
                   | Inr b \<Rightarrow> Inr (req1\<lparr>ExpectedChecksum := Some (ChecksumType p, b)\<rparr>))))"

fun requests_loop ::
  "('d, 'k, 'c, 'r, 'p, 'm) env \<Rightarrow> Repo \<Rightarrow> string \<Rightarrow> nat \<Rightarrow> nat \<Rightarrow> PackageEntry list \<Rightarrow>
     Request list \<times> event list \<Rightarrow> Request list \<times> event list" where
  "requests_loop E c packagedir len_missing i [] acc = acc"
| "requests_loop E c packagedir len_missing i (p # rest) (reqs, printed) =
     (case new_request E c packagedir len_missing i p of
        Inl line \<Rightarrow> requests_loop E c packagedir len_missing (i + 1) rest (reqs, printed @ [line])
      | Inr req \<Rightarrow> requests_loop E c packagedir len_missing (i + 1) rest (reqs @ [req], printed))"

definition schedule ::
  "('d, 'k, 'c, 'r, 'p, 'm) env \<Rightarrow> Repo \<Rightarrow> string \<Rightarrow> PackageEntry list \<Rightarrow>
     Request list \<times> event list" where
  "schedule E c packagedir missing =
     requests_loop E c packagedir (length missing) 0 missing ([], [])"

subsection \<open>Line 219: the download\<close>

text \<open>
  Modelled from the spec: \<open>download\<close>, the worker pool of the package, is not in
  \<open>repo.go\<close>. The spec gives its contract: it accepts the requests and a pool width and
  produces a sequence of outcomes, one per job, ending once every job has been attempted
  exactly once; a failed job does not cancel the others and is one failed outcome. The
  order of completion is left open by the spec; the model takes the order of the
  requests, with every transfer finished before the outcomes are read. The width only
  changes the timing, so the result does not depend on it.
\<close>

fun download ::
  "('d, 'k, 'c, 'r, 'p, 'm) env \<Rightarrow> 'd fs \<Rightarrow> Request list \<Rightarrow> nat \<Rightarrow> Response list \<times> 'd fs" where
  "download E fs [] width = ([], fs)"
| "download E fs (req # reqs) width =
     (let (resp, fs1) = grab_transfer E fs req;
          (resps, fs2) = download E fs1 reqs width
      in (resp # resps, fs2))"

subsection \<open>Lines 222 to 249: the finished downloads\<close>

text \<open>
  The body of the loop over \<open>responses\<close>: the filesystem and the printed lines before,
  and after. The key ring is \<open>None\<close> when it was never loaded.
\<close>

definition handle_response ::
  "('d, 'k, 'c, 'r, 'p, 'm) env \<Rightarrow> Repo \<Rightarrow> 'k option \<Rightarrow> Response \<Rightarrow>
     'd fs \<times> event list \<Rightarrow> 'd fs \<times> event list" where
  "handle_response E c keyring resp st =
     (let (fs, printed) = st in
      case Error resp of
        Some err \<Rightarrow> (fs, printed @ [Errorf (Some err) (ErrorDownloading (Label (Request resp)))])
      | None \<Rightarrow>
          if GPGCheck c then
            (case os_Open E fs (Response.Filename resp) of
               Inl err \<Rightarrow>
                 (fs, printed @ [Errorf (Some err) (ErrorReadingForGPGCheck (Label (Request resp)))])
             | Inr f \<Rightarrow>
                 (case rpm_GPGCheck E f keyring of
                    Some err \<Rightarrow>
                      (let printed1 =
                             printed @ [Errorf (Some err) (GPGCheckValidationFailed (Label (Request resp)))]
                       in case os_Remove E fs (Response.Filename resp) of
                            (Some err2, fs1) \<Rightarrow>
                              (fs1, printed1 @ [Errorf (Some err2) (ErrorDeleting (Label (Request resp)))])
                          | (None, fs1) \<Rightarrow> (fs1, printed1))
                  | None \<Rightarrow> (fs, printed)))
          else (fs, printed))"

fun handle_responses ::
  "('d, 'k, 'c, 'r, 'p, 'm) env \<Rightarrow> Repo \<Rightarrow> 'k option \<Rightarrow> Response list \<Rightarrow>
     'd fs \<times> event list \<Rightarrow> 'd fs \<times> event list" where
  "handle_responses E c keyring [] st = st"
| "handle_responses E c keyring (resp # responses) st =
     handle_responses E c keyring responses (handle_response E c keyring resp st)"

subsection \<open>Lines 252 to 273: the index\<close>

text \<open>
  Modelled from the spec: \<open>PanicOn\<close> is not in \<open>repo.go\<close>. \<open>Sync\<close> calls it with an
  error that is not nil, and the spec says what follows: the failure is fatal to the
  whole sync, it propagates and aborts the run (an unconditional abort).
\<close>

definition PanicOn :: "error \<Rightarrow> completion" where
  "PanicOn err = Panicked err"

text \<open>
  The loop over the enumerated files: each is opened and parsed, and the package is
  written to the index (\<open>w.Write\<close>, whose result \<open>Sync\<close> ignores). The result is how
  the loop ends and what was written up to there.
\<close>

fun insert_loop ::
  "('d, 'k, 'c, 'r, 'p, 'm) env \<Rightarrow> 'd fs \<Rightarrow> string list \<Rightarrow> 'm list \<Rightarrow> completion \<times> 'm list" where
  "insert_loop E fs [] written = (ReturnedNil, written)"
| "insert_loop E fs (f # files) written =
     (case rpm_OpenPackageFile E fs f of
        Inl err \<Rightarrow> (PanicOn err, written)
      | Inr p \<Rightarrow> insert_loop E fs files (written @ [p]))"

text \<open>
  How the run ends, the filesystem, the printed lines and the packages written to the
  index. The deferred \<open>w.Close()\<close> is the index writer's own.
\<close>

record ('d, 'm) run =
  ended :: completion
  disk :: "'d fs"
  printed :: "event list"
  index :: "'m list"

definition rebuild ::
  "('d, 'k, 'c, 'r, 'p, 'm) env \<Rightarrow> 'd fs \<Rightarrow> string \<Rightarrow> ('d, 'm) run" where
  "rebuild E fs packagedir =
     (case createrepo E fs (filepath_Join E packagedir ''/repodata'') of
        (Some err, fs1) \<Rightarrow> \<lparr>ended = PanicOn err, disk = fs1, printed = [], index = []\<rparr>
      | (None, fs1) \<Rightarrow>
          (case filepath_Glob E fs1 (filepath_Join E packagedir ''/*.rpm'') of
             Inl err \<Rightarrow> \<lparr>ended = PanicOn err, disk = fs1, printed = [], index = []\<rparr>
           | Inr files \<Rightarrow>
               (let (how, written) = insert_loop E fs1 files []
                in \<lparr>ended = how, disk = fs1,
                    printed = [Dprintf (InsertingPackages (length files))], index = written\<rparr>)))"

subsection \<open>Lines 62 to 86: \<open>CacheLocal\<close>\<close>

definition CacheLocal ::
  "('d, 'k, 'c, 'r, 'p, 'm) env \<Rightarrow> Repo \<Rightarrow> string \<Rightarrow> 'd fs \<Rightarrow> (error + 'r) \<times> 'd fs \<times> event list" where
  "CacheLocal E c path fs =
     (let out = [Dprintf (Caching (ID c) path)] in
      case NewCache E fs path of
        (Inl err, fs1) \<Rightarrow> (Inl err, fs1, out)
      | (Inr cache, fs1) \<Rightarrow>
          (case NewRepoCache E fs1 cache c of
             (Inl err, fs2) \<Rightarrow> (Inl err, fs2, out)
           | (Inr repocache, fs2) \<Rightarrow>
               (case RepoCache_Update E fs2 repocache of
                  (Inl err, fs3) \<Rightarrow> (Inl err, fs3, out)
                | (Inr repocache1, fs3) \<Rightarrow> (Inr repocache1, fs3, out))))"

subsection \<open>Lines 91 to 276: \<open>Sync\<close>\<close>

text \<open>
  Lines 133 to 249, which have no \<open>return\<close>: the filter, the list of missing
  packages, the requests, the download and the finished downloads. The result is the
  filesystem and the printed lines when the loop over the responses has ended.
\<close>

definition sync_downloads ::
  "('d, 'k, 'c, 'r, 'p, 'm) env \<Rightarrow> Repo \<Rightarrow> 'k option \<Rightarrow> string \<Rightarrow> FileInfo list \<Rightarrow>
     PackageEntry list \<Rightarrow> 'd fs \<Rightarrow> event list \<Rightarrow> 'd fs \<times> event list" where
  "sync_downloads E c keyring packagedir files packages0 fs out0 =
     (let packages = FilterPackages E c packages0;
          out1 = out0 @ [Dprintf (FoundPackages (length packages))];
          (missing, out2) = find_missing E fs packagedir files packages;
          (reqs, out3) = schedule E c packagedir missing;
          (responses, fs1) = download E fs reqs (DownloadThreads E)
      in handle_responses E c keyring responses (fs1, out1 @ out2 @ out3))"

text \<open>Lines 133 to 276: the above, then the index and \<open>return nil\<close>.\<close>

definition sync_packages ::
  "('d, 'k, 'c, 'r, 'p, 'm) env \<Rightarrow> Repo \<Rightarrow> 'k option \<Rightarrow> string \<Rightarrow> FileInfo list \<Rightarrow>
     PackageEntry list \<Rightarrow> 'd fs \<Rightarrow> event list \<Rightarrow> ('d, 'm) run" where
  "sync_packages E c keyring packagedir files packages0 fs out0 =
     (let (fs2, out4) = sync_downloads E c keyring packagedir files packages0 fs out0;
          r = rebuild E fs2 packagedir
      in r\<lparr>printed := out4 @ printed r\<rparr>)"

text \<open>Lines 103 to 131, after the key ring: every step that fails returns its error.\<close>

definition sync_catalog ::
  "('d, 'k, 'c, 'r, 'p, 'm) env \<Rightarrow> Repo \<Rightarrow> 'k option \<Rightarrow> string \<Rightarrow> string \<Rightarrow> 'd fs \<Rightarrow>
     ('d, 'm) run" where
  "sync_catalog E c keyring cachedir packagedir fs =
     (case CacheLocal E c cachedir fs of
        (Inl err, fs1, out) \<Rightarrow>
          \<lparr>ended = Returned (FailedToCacheMetadata (ID c) err), disk = fs1, printed = out, index = []\<rparr>
      | (Inr repocache, fs1, out) \<Rightarrow>
          (case RepoCache_PrimaryDB E fs1 repocache of
             Inl err \<Rightarrow> \<lparr>ended = Returned err, disk = fs1, printed = out, index = []\<rparr>
           | Inr primarydb \<Rightarrow>
               (let (mkerr, fs2) = os_MkdirAll E fs1 packagedir in
                if (case mkerr of None \<Rightarrow> False | Some err \<Rightarrow> \<not> os_IsExist err)
                then \<lparr>ended = Returned (ErrorCreatingLocalPackagePath packagedir (the mkerr)),
                      disk = fs2, printed = out, index = []\<rparr>
                else
                  (case ioutil_ReadDir E fs2 packagedir of
                     Inl err \<Rightarrow>
                       \<lparr>ended = Returned ErrorReadingPackages, disk = fs2, printed = out, index = []\<rparr>
                   | Inr files \<Rightarrow>
                       (case PrimaryDB_Packages E fs2 primarydb of
                          Inl err \<Rightarrow>
                            \<lparr>ended = Returned (ErrorReadingPrimaryDB err), disk = fs2,
                              printed = out @ [Dprintf LoadingPackageMetadata], index = []\<rparr>
                        | Inr packages \<Rightarrow>
                            sync_packages E c keyring packagedir files packages fs2
                              (out @ [Dprintf LoadingPackageMetadata]))))))"

text \<open>Lines 94 to 101, the key ring, and then the rest.\<close>

definition Sync ::
  "('d, 'k, 'c, 'r, 'p, 'm) env \<Rightarrow> Repo \<Rightarrow> string \<Rightarrow> string \<Rightarrow> 'd fs \<Rightarrow> ('d, 'm) run" where
  "Sync E c cachedir packagedir fs =
     (if GPGCheck c then
        (case OpenKeyRing E fs (GPGKey c) of
           Inl err \<Rightarrow> \<lparr>ended = Returned err, disk = fs, printed = [], index = []\<rparr>
         | Inr keyring \<Rightarrow> sync_catalog E c (Some keyring) cachedir packagedir fs)
      else sync_catalog E c None cachedir packagedir fs)"


section \<open>Notions used in the statements\<close>

text \<open>The value of the variable \<open>found\<close> at line 185, for the package \<open>p\<close>.\<close>

definition found ::
  "('d, 'k, 'c, 'r, 'p, 'm) env \<Rightarrow> 'd fs \<Rightarrow> string \<Rightarrow> FileInfo list \<Rightarrow> PackageEntry \<Rightarrow> bool" where
  "found E fs packagedir files p =
     fst (search_local E fs p (Base (LocationHref p))
            (filepath_Join E packagedir (Base (LocationHref p))) files)"

section \<open>A mirror to run the model on\<close>

text \<open>
  A small upstream and a small package directory. A file is its digest in hexadecimal
  and whether it carries a signature of the trusted key. The catalog has five packages:
  \<open>a\<close> is on disk and intact, \<open>big\<close> is on disk with 250 bytes where 200 are
  declared, \<open>bad\<close> is on disk with the declared size and another digest, \<open>zz\<close> is not
  on disk and its checksum is no hexadecimal string, \<open>new\<close> is not on disk.
\<close>

definition pkg_a :: PackageEntry where
  "pkg_a = \<lparr>LocationHref = ''Packages/a.rpm'', PackageSize = 100,
            PackageEntry.Checksum = Inr ''0a'', ChecksumType = ''sha256''\<rparr>"

definition pkg_big :: PackageEntry where
  "pkg_big = \<lparr>LocationHref = ''Packages/big.rpm'', PackageSize = 200,
              PackageEntry.Checksum = Inr ''0b'', ChecksumType = ''sha256''\<rparr>"

definition pkg_bad :: PackageEntry where
  "pkg_bad = \<lparr>LocationHref = ''Packages/bad.rpm'', PackageSize = 300,
              PackageEntry.Checksum = Inr ''0c'', ChecksumType = ''sha256''\<rparr>"

definition pkg_zz :: PackageEntry where
  "pkg_zz = \<lparr>LocationHref = ''Packages/zz.rpm'', PackageSize = 50,
             PackageEntry.Checksum = Inr ''zz'', ChecksumType = ''sha256''\<rparr>"

definition pkg_new :: PackageEntry where
  "pkg_new = \<lparr>LocationHref = ''Packages/new.rpm'', PackageSize = 400,
              PackageEntry.Checksum = Inr ''0d'', ChecksumType = ''sha256''\<rparr>"

definition ex_packages :: "PackageEntry list" where
  "ex_packages = [pkg_a, pkg_big, pkg_bad, pkg_zz, pkg_new]"

definition ex_files :: "FileInfo list" where
  "ex_files = [\<lparr>FileInfo.Name = ''a.rpm'', FileInfo.Size = 100\<rparr>,
               \<lparr>FileInfo.Name = ''bad.rpm'', FileInfo.Size = 300\<rparr>,
               \<lparr>FileInfo.Name = ''big.rpm'', FileInfo.Size = 250\<rparr>]"

definition ex_fs :: "(string \<times> bool) fs" where
  "ex_fs = [''/mirror/a.rpm'' \<mapsto> (''0a'', True),
            ''/mirror/bad.rpm'' \<mapsto> (''ff'', True),
            ''/mirror/big.rpm'' \<mapsto> (''0b'', True)]"

definition ex_repo :: "bool \<Rightarrow> string \<Rightarrow> Repo" where
  "ex_repo check key =
     \<lparr>ID = ''base'', Repo.Name = ''Base'', Architecture = ''x86_64'',
      BaseURL = ''http://up'', CachePath = ''/cache'', Repo.Checksum = ''sha256'',
      DeleteRemoved = False, GPGCheck = check, GPGKey = key, Groupfile = [],
      IncludeSources = False, LocalPath = ''/mirror'', MirrorURL = [], NewOnly = False,
      MaxDate = 0, MinDate = 0, YumfileLineNo = 1, YumfilePath = ''Yumfile''\<rparr>"

text \<open>
  The collaborators of the example. The transfer of \<open>bad.rpm\<close> fails; every other
  transfer leaves an unsigned file. A file whose digest is \<open>junk\<close> is no package.
\<close>

definition ex_env :: "(string \<times> bool, string, string, string, string, string) env" where
  "ex_env =
     \<lparr>OpenKeyRing = (\<lambda>fs path. if path = ''/keys/ok.gpg'' then Inr ''key'' else Inl ErrNotExist),
      NewCache = (\<lambda>fs path. (Inr path, fs)),
      NewRepoCache = (\<lambda>fs cache c. (Inr (ID c), fs)),
      RepoCache_Update = (\<lambda>fs repocache. (Inr repocache, fs)),
      RepoCache_PrimaryDB = (\<lambda>fs repocache. Inr repocache),
      PrimaryDB_Packages = (\<lambda>fs primarydb. Inr ex_packages),
      FilterPackages = (\<lambda>c packages. packages),
      ValidateFileChecksum =
        (\<lambda>fs path csum alg.
           case fs path of
             None \<Rightarrow> Some ErrNotExist
           | Some f \<Rightarrow> if fst f = csum then None else Some ErrChecksumMismatch),
      urljoin = (\<lambda>base href. base @ ''/'' @ href),
      createrepo = (\<lambda>fs path. (None, fs)),
      DownloadThreads = 4,
      os_MkdirAll = (\<lambda>fs path. (None, fs)),
      ioutil_ReadDir = (\<lambda>fs path. Inr ex_files),
      filepath_Join = (\<lambda>dir elem. dir @ ''/'' @ dropWhile (\<lambda>ch. ch = CHR ''/'') elem),
      filepath_Glob =
        (\<lambda>fs pattern.
           Inr (filter (\<lambda>path. fs path \<noteq> None)
                  [''/mirror/a.rpm'', ''/mirror/bad.rpm'', ''/mirror/big.rpm'',
                   ''/mirror/extra.rpm'', ''/mirror/new.rpm''])),
      grab_NewRequest =
        (\<lambda>url. Inr \<lparr>URL = url, Label = NoLabel, Request.Filename = [], Request.Size = 0,
                     ExpectedChecksum = None\<rparr>),
      grab_transfer =
        (\<lambda>fs req.
           if URL req = ''http://up/Packages/bad.rpm''
           then (\<lparr>Request = req, Response.Filename = Request.Filename req,
                   Error = Some (Failure ''404'')\<rparr>, fs)
           else (\<lparr>Request = req, Response.Filename = Request.Filename req, Error = None\<rparr>,
                 fs(Request.Filename req \<mapsto> (''d0'', False)))),
      rpm_GPGCheck =
        (\<lambda>f keyring. if snd f \<and> keyring \<noteq> None then None else Some (Failure ''signature'')),
      rpm_OpenPackageFile =
        (\<lambda>fs path.
           case fs path of
             None \<Rightarrow> Inl ErrNotExist
           | Some f \<Rightarrow> if fst f = ''junk'' then Inl (Failure ''not an rpm'') else Inr path),
      open_denied = (\<lambda>path. None),
      remove_denied = (\<lambda>path. None)\<rparr>"



text \<open>
  The outcome of the download of \<open>new\<close> in the example, and the disk it leaves: the
  file is there and carries no signature.
\<close>

definition resp_new :: Response where
  "resp_new =
     \<lparr>Request = \<lparr>URL = ''http://up/Packages/new.rpm'', Label = JobLabel 4 4 pkg_new,
                   Request.Filename = ''/mirror/new.rpm'', Request.Size = 400,
                   ExpectedChecksum = Some (''sha256'', [13])\<rparr>,
      Response.Filename = ''/mirror/new.rpm'', Error = None\<rparr>"

definition fs_downloaded :: "(string \<times> bool) fs" where
  "fs_downloaded = ex_fs(''/mirror/new.rpm'' \<mapsto> (''d0'', False))"


definition fs_junk :: "(string \<times> bool) fs" where
  "fs_junk = ex_fs(''/mirror/extra.rpm'' \<mapsto> (''junk'', True))"


section \<open>Lemmas on the loops\<close>


subsection \<open>The search and the list of missing packages\<close>

lemma search_local_no_match:
  "\<forall>fi\<in>set files. FileInfo.Name fi \<noteq> fname \<Longrightarrow> search_local E fs p fname path files = (False, [])"
  by (induction files) auto

lemma search_local_only_match:
  "distinct (map FileInfo.Name files) \<Longrightarrow> fi \<in> set files \<Longrightarrow> FileInfo.Name fi = fname \<Longrightarrow>
   search_local E fs p fname path files = search_local E fs p fname path [fi]"
proof (induction files)
  case Nil
  then show ?case by simp
next
  case (Cons a files)
  show ?case
  proof (cases "a = fi")
    case True
    with Cons.prems have "\<forall>g\<in>set files. FileInfo.Name g \<noteq> fname" by (auto simp: image_iff)
    then have "search_local E fs p fname path files = (False, [])"
      by (rule search_local_no_match)
    with True Cons.prems(3) show ?thesis by simp
  next
    case False
    with Cons.prems have in_rest: "fi \<in> set files" by simp
    with Cons.prems have "FileInfo.Name a \<noteq> fname" by force
    moreover from Cons.prems have "distinct (map FileInfo.Name files)" by simp
    ultimately show ?thesis using Cons.IH in_rest Cons.prems(3) by simp
  qed
qed


lemma missing_loop_filter:
  "fst (missing_loop E fs packagedir files packages (missing, totalsize, out)) =
   missing @ filter (\<lambda>p. \<not> found E fs packagedir files p) packages"
  by (induction packages arbitrary: missing totalsize out)
     (auto simp: found_def Let_def split: prod.splits)

lemma find_missing_filter:
  "fst (find_missing E fs packagedir files packages) =
   filter (\<lambda>p. \<not> found E fs packagedir files p) packages"
proof -
  obtain missing totalsize out where
    m: "missing_loop E fs packagedir files packages
          ([], 0, [Dprintf (CheckingForExistingPackages packagedir)]) = (missing, totalsize, out)"
    by (metis prod_cases3)
  with missing_loop_filter [of E fs packagedir files packages "[]" 0
      "[Dprintf (CheckingForExistingPackages packagedir)]"]
  have "missing = filter (\<lambda>p. \<not> found E fs packagedir files p) packages" by simp
  with m show ?thesis by (simp add: find_missing_def)
qed




lemma same_name_same_file:
  "distinct (map FileInfo.Name files) \<Longrightarrow> fi \<in> set files \<Longrightarrow> g \<in> set files \<Longrightarrow>
   FileInfo.Name g = FileInfo.Name fi \<Longrightarrow> g = fi"
  by (simp add: distinct_map inj_on_def)

lemma search_local_single:
  assumes "FileInfo.Name fi = fname"
  shows "fst (search_local E fs p fname path [fi]) \<longleftrightarrow>
     FileInfo.Size fi = PackageSize p \<and>
     (\<exists>csum. PackageEntry.Checksum p = Inr csum \<and>
              ValidateFileChecksum E fs path csum (ChecksumType p) = None)"
proof (cases "PackageEntry.Checksum p")
  case (Inl err)
  with assms show ?thesis by simp
next
  case (Inr csum)
  with assms show ?thesis
    by (cases "ValidateFileChecksum E fs path csum (ChecksumType p)") simp_all
qed

subsection \<open>File names\<close>




subsection \<open>Requests and outcomes\<close>





subsection \<open>The loop over the responses\<close>

lemma os_Remove_absent:
  "fs path = None \<Longrightarrow> snd (os_Remove E fs target) path = None"
  by (auto simp: os_Remove_def split: option.splits)

lemma handle_response_grows:
  "\<exists>more. snd (handle_response E c keyring resp (fs, out)) = out @ more"
  by (auto simp: handle_response_def Let_def split: option.splits sum.splits prod.splits)

lemma handle_response_absent:
  "fs path = None \<Longrightarrow> fst (handle_response E c keyring resp (fs, out)) path = None"
  by (auto simp: handle_response_def Let_def os_Remove_def
           split: option.splits sum.splits prod.splits if_splits)

lemma handle_responses_grows:
  "\<exists>more. snd (handle_responses E c keyring responses (fs, out)) = out @ more"
proof (induction responses arbitrary: fs out)
  case Nil
  then show ?case by simp
next
  case (Cons resp responses)
  obtain fs1 out1 where h: "handle_response E c keyring resp (fs, out) = (fs1, out1)"
    by (cases "handle_response E c keyring resp (fs, out)")
  from handle_response_grows [of E c keyring resp fs out] h
  obtain m1 where m1: "out1 = out @ m1" by auto
  from Cons.IH [of fs1 out1] obtain m2 where
    "snd (handle_responses E c keyring responses (fs1, out1)) = out1 @ m2" by blast
  with h m1 show ?case by simp
qed

lemma handle_responses_keeps_lines:
  "ev \<in> set out \<Longrightarrow> ev \<in> set (snd (handle_responses E c keyring responses (fs, out)))"
  using handle_responses_grows [of E c keyring responses fs out] by auto

lemma handle_responses_absent:
  "fs path = None \<Longrightarrow> fst (handle_responses E c keyring responses (fs, out)) path = None"
proof (induction responses arbitrary: fs out)
  case Nil
  then show ?case by simp
next
  case (Cons resp responses)
  obtain fs1 out1 where h: "handle_response E c keyring resp (fs, out) = (fs1, out1)"
    by (cases "handle_response E c keyring resp (fs, out)")
  from handle_response_absent [where fs = fs and path = path, OF Cons.prems, of E c keyring resp out] h
  have "fs1 path = None" by simp
  then have "fst (handle_responses E c keyring responses (fs1, out1)) path = None"
    by (rule Cons.IH [where fs = fs1 and out = out1])
  with h show ?case by simp
qed

lemma handle_response_no_check:
  "\<not> GPGCheck c \<Longrightarrow> fst (handle_response E c keyring resp (fs, out)) = fs"
  by (auto simp: handle_response_def Let_def split: option.splits)

lemma handle_responses_no_check:
  "\<not> GPGCheck c \<Longrightarrow> fst (handle_responses E c keyring responses (fs, out)) = fs"
proof (induction responses arbitrary: out)
  case Nil
  then show ?case by simp
next
  case (Cons resp responses)
  obtain fs1 out1 where h: "handle_response E c keyring resp (fs, out) = (fs1, out1)"
    by (cases "handle_response E c keyring resp (fs, out)")
  from handle_response_no_check [OF Cons.prems, of E keyring resp fs out] h
  have "fs1 = fs" by simp
  with Cons.IH [OF Cons.prems, of out1] h show ?case by simp
qed

lemma handle_response_bad_signature:
  assumes "Error resp = None" and "GPGCheck c"
    and "os_Open E fs (Response.Filename resp) = Inr f"
    and "rpm_GPGCheck E f keyring = Some err"
  shows "handle_response E c keyring resp (fs, out) =
     (case remove_denied E (Response.Filename resp) of
        None \<Rightarrow> (fs(Response.Filename resp := None),
                 out @ [Errorf (Some err) (GPGCheckValidationFailed (Label (Request resp)))])
      | Some err2 \<Rightarrow> (fs,
                 out @ [Errorf (Some err) (GPGCheckValidationFailed (Label (Request resp))),
                        Errorf (Some err2) (ErrorDeleting (Label (Request resp)))]))"
proof -
  from assms(3) obtain g where g: "fs (Response.Filename resp) = Some g"
    by (auto simp: os_Open_def split: option.splits)
  show ?thesis
    using assms g by (simp add: handle_response_def os_Remove_def split: option.splits)
qed

subsection \<open>The index phase\<close>


lemma insert_loop_first_failure:
  "\<forall>h\<in>set pre. \<exists>m. rpm_OpenPackageFile E fs h = Inr m \<Longrightarrow>
   rpm_OpenPackageFile E fs g = Inl err \<Longrightarrow>
   fst (insert_loop E fs (pre @ g # post) written) = Panicked err \<and>
   map Inr (snd (insert_loop E fs (pre @ g # post) written)) =
     map Inr written @ map (rpm_OpenPackageFile E fs) pre"
proof (induction pre arbitrary: written)
  case Nil
  then show ?case by (simp add: PanicOn_def)
next
  case (Cons f pre)
  from Cons.prems obtain m where m: "rpm_OpenPackageFile E fs f = Inr m" by auto
  from Cons.prems have "\<forall>h\<in>set pre. \<exists>m. rpm_OpenPackageFile E fs h = Inr m" by simp
  from Cons.IH [OF this Cons.prems(2), of "written @ [m]"] m show ?case by simp
qed

lemma first_failure_exists:
  assumes "f \<in> set files" and "rpm_OpenPackageFile E fs f = Inl err"
  shows "\<exists>pre g post e. files = pre @ g # post \<and>
           (\<forall>h\<in>set pre. \<exists>m. rpm_OpenPackageFile E fs h = Inr m) \<and>
           rpm_OpenPackageFile E fs g = Inl e"
proof -
  from assms have "\<exists>x\<in>set files. isl (rpm_OpenPackageFile E fs x)" by force
  from split_list_first_prop [OF this]
  obtain pre g post where s: "files = pre @ g # post"
    and g: "isl (rpm_OpenPackageFile E fs g)"
    and p: "\<forall>h\<in>set pre. \<not> isl (rpm_OpenPackageFile E fs h)" by blast
  from g obtain e where e: "rpm_OpenPackageFile E fs g = Inl e"
    by (cases "rpm_OpenPackageFile E fs g") auto
  from p have "\<forall>h\<in>set pre. \<exists>m. rpm_OpenPackageFile E fs h = Inr m"
    by (metis isl_def sum.exhaust_sel)
  with s e show ?thesis by blast
qed



lemma sync_packages_rebuild:
  "ended (sync_packages E c keyring packagedir listing packages fs0 out0) =
     ended (rebuild E (fst (sync_downloads E c keyring packagedir listing packages fs0 out0)) packagedir)
   \<and> index (sync_packages E c keyring packagedir listing packages fs0 out0) =
     index (rebuild E (fst (sync_downloads E c keyring packagedir listing packages fs0 out0)) packagedir)
   \<and> disk (sync_packages E c keyring packagedir listing packages fs0 out0) =
     disk (rebuild E (fst (sync_downloads E c keyring packagedir listing packages fs0 out0)) packagedir)"
  by (simp add: sync_packages_def Let_def split: prod.splits)


lemma rebuild_first_failure:
  assumes "createrepo E fs (filepath_Join E packagedir ''/repodata'') = (None, fs1)"
    and "filepath_Glob E fs1 (filepath_Join E packagedir ''/*.rpm'') = Inr (pre @ g # post)"
    and "\<forall>h\<in>set pre. \<exists>m. rpm_OpenPackageFile E fs1 h = Inr m"
    and "rpm_OpenPackageFile E fs1 g = Inl err"
  shows "ended (rebuild E fs packagedir) = Panicked err \<and>
         map Inr (index (rebuild E fs packagedir)) = map (rpm_OpenPackageFile E fs1) pre"
proof -
  obtain how written where i: "insert_loop E fs1 (pre @ g # post) [] = (how, written)"
    by (cases "insert_loop E fs1 (pre @ g # post) []")
  from insert_loop_first_failure [OF assms(3,4), of post "[]"] i
  have "how = Panicked err" and "map Inr written = map (rpm_OpenPackageFile E fs1) pre" by simp_all
  with assms(1,2) i show ?thesis by (simp add: rebuild_def)
qed

subsection \<open>The enumeration of the example, failed responses, and one whole run\<close>

lemma ex_listing:
  "fs ''/mirror/a.rpm'' \<noteq> None \<Longrightarrow> fs ''/mirror/bad.rpm'' \<noteq> None \<Longrightarrow>
   fs ''/mirror/big.rpm'' \<noteq> None \<Longrightarrow> fs ''/mirror/extra.rpm'' \<noteq> None \<Longrightarrow>
   fs ''/mirror/new.rpm'' = None \<Longrightarrow>
   filepath_Glob ex_env fs (filepath_Join ex_env ''/mirror'' ''/*.rpm'') =
     Inr [''/mirror/a.rpm'', ''/mirror/bad.rpm'', ''/mirror/big.rpm'', ''/mirror/extra.rpm'']"
  by (simp add: ex_env_def)




section \<open>The claims\<close>

subsection \<open>C1: a local file larger than declared\<close>





subsection \<open>C2: when a package counts as present\<close>

text \<open>
  C2: an entry is valid if and only if a local file with its file name exists, the
  file's size equals the declared size and its checksum matches under the declared
  algorithm; equal sizes alone never suffice; and no download job is created for a
  valid entry. In the code, valid is \<open>found\<close>. A directory listing has each name once.
  Then \<open>found\<close> holds exactly when the listing has a file with the entry's file name
  and the declared size, the entry's checksum can be read and \<open>ValidateFileChecksum\<close>
  gives nil for the file's path, that checksum and the declared algorithm; with equal
  sizes and any error of the validation \<open>found\<close> is false. An entry that is found
  is not in \<open>missing\<close>.
\<close>

theorem found_iff_size_and_checksum_match:
  assumes "distinct (map FileInfo.Name files)"
  shows "(found E fs packagedir files p \<longleftrightarrow>
            (\<exists>fi\<in>set files. FileInfo.Name fi = Base (LocationHref p) \<and>
                               FileInfo.Size fi = PackageSize p) \<and>
            (\<exists>csum. PackageEntry.Checksum p = Inr csum \<and>
                     ValidateFileChecksum E fs (filepath_Join E packagedir (Base (LocationHref p)))
                       csum (ChecksumType p) = None))
       \<and> (found E fs packagedir files p \<longrightarrow>
            p \<notin> set (fst (find_missing E fs packagedir files packages)))"
proof -
  define name where "name = Base (LocationHref p)"
  define path where "path = filepath_Join E packagedir name"
  define ok where "ok \<longleftrightarrow> (\<exists>csum. PackageEntry.Checksum p = Inr csum \<and>
                     ValidateFileChecksum E fs path csum (ChecksumType p) = None)"
  have f: "found E fs packagedir files p = fst (search_local E fs p name path files)"
    by (simp add: found_def name_def path_def)
  have iff: "found E fs packagedir files p \<longleftrightarrow>
            (\<exists>fi\<in>set files. FileInfo.Name fi = name \<and> FileInfo.Size fi = PackageSize p) \<and> ok"
  proof (cases "\<exists>fi\<in>set files. FileInfo.Name fi = name")
    case False
    then have "\<forall>fi\<in>set files. FileInfo.Name fi \<noteq> name" by blast
    then have "search_local E fs p name path files = (False, [])"
      by (rule search_local_no_match)
    with False f show ?thesis by auto
  next
    case True
    then obtain fi where fi: "fi \<in> set files" "FileInfo.Name fi = name" by blast
    have one: "search_local E fs p name path files = search_local E fs p name path [fi]"
      using assms fi by (rule search_local_only_match)
    have only: "g = fi" if "g \<in> set files" "FileInfo.Name g = name" for g
      using same_name_same_file [OF assms fi(1) that(1)] that(2) fi(2) by simp
    have "(\<exists>g\<in>set files. FileInfo.Name g = name \<and> FileInfo.Size g = PackageSize p) \<longleftrightarrow>
          FileInfo.Size fi = PackageSize p"
      using fi only by blast
    moreover have "found E fs packagedir files p \<longleftrightarrow> FileInfo.Size fi = PackageSize p \<and> ok"
      unfolding f one ok_def using fi(2) by (rule search_local_single)
    ultimately show ?thesis by simp
  qed
  have "found E fs packagedir files p \<longrightarrow>
          p \<notin> set (fst (find_missing E fs packagedir files packages))"
    by (simp add: find_missing_filter)
  with iff show ?thesis unfolding ok_def path_def name_def by (intro conjI)
qed

text \<open>
  The theorem at the example: \<open>a\<close> is found and not missing; \<open>bad\<close>, which has the
  declared size and another digest, is not found.
\<close>

theorem found_iff_witness:
  "distinct (map FileInfo.Name ex_files)
   \<and> found ex_env ex_fs ''/mirror'' ex_files pkg_a
   \<and> pkg_a \<notin> set (fst (find_missing ex_env ex_fs ''/mirror'' ex_files ex_packages))
   \<and> \<not> found ex_env ex_fs ''/mirror'' ex_files pkg_bad"
proof -
  have d: "distinct (map FileInfo.Name ex_files)" by (simp add: ex_files_def)
  have ba: "Base (LocationHref pkg_a) = ''a.rpm''" by (simp add: pkg_a_def Base_def)
  have bb: "Base (LocationHref pkg_bad) = ''bad.rpm''" by (simp add: pkg_bad_def Base_def)
  have a1: "\<exists>fi\<in>set ex_files. FileInfo.Name fi = Base (LocationHref pkg_a) \<and>
                               FileInfo.Size fi = PackageSize pkg_a"
    unfolding ba by (simp add: ex_files_def pkg_a_def)
  have a2: "\<exists>csum. PackageEntry.Checksum pkg_a = Inr csum \<and>
                     ValidateFileChecksum ex_env ex_fs
                       (filepath_Join ex_env ''/mirror'' (Base (LocationHref pkg_a)))
                       csum (ChecksumType pkg_a) = None"
    unfolding ba by (simp add: ex_env_def ex_fs_def pkg_a_def)
  have b: "\<not> (\<exists>csum. PackageEntry.Checksum pkg_bad = Inr csum \<and>
                     ValidateFileChecksum ex_env ex_fs
                       (filepath_Join ex_env ''/mirror'' (Base (LocationHref pkg_bad)))
                       csum (ChecksumType pkg_bad) = None)"
    unfolding bb by (simp add: ex_env_def ex_fs_def pkg_bad_def)
  note ta = found_iff_size_and_checksum_match [OF d, of ex_env ex_fs "''/mirror''" pkg_a ex_packages]
  note tb = found_iff_size_and_checksum_match [OF d, of ex_env ex_fs "''/mirror''" pkg_bad ex_packages]
  have fa: "found ex_env ex_fs ''/mirror'' ex_files pkg_a"
    using conjunct1 [OF ta] a1 a2 by (elim iffE impE conjI)
  have na: "pkg_a \<notin> set (fst (find_missing ex_env ex_fs ''/mirror'' ex_files ex_packages))"
    using conjunct2 [OF ta] fa by (rule mp)
  have nb: "\<not> found ex_env ex_fs ''/mirror'' ex_files pkg_bad"
  proof
    assume "found ex_env ex_fs ''/mirror'' ex_files pkg_bad"
    with conjunct1 [OF tb] b show False by (elim iffE impE conjE notE)
  qed
  from d fa na nb show ?thesis by (intro conjI)
qed

subsection \<open>C4: equal size, failed checksum\<close>



subsection \<open>C9: matching by base file name\<close>



subsection \<open>C3: one outcome for each job\<close>




subsection \<open>C10: a key ring that cannot be loaded\<close>

text \<open>
  C10: when signature checking is enabled and the key ring cannot be loaded, \<open>Sync\<close>
  returns that error at once: before the metadata is cached, before the package
  directory is created and before any download is scheduled, and the local filesystem is
  as it was. Whatever the collaborators would do, the run ends with the error of
  \<open>OpenKeyRing\<close>, on the filesystem it started on, with nothing printed (not even the
  first line of \<open>CacheLocal\<close>) and nothing written to an index.
\<close>

theorem key_ring_failure_returns_at_once:
  assumes "GPGCheck c" and "OpenKeyRing E fs (GPGKey c) = Inl err"
  shows "Sync E c cachedir packagedir fs =
         \<lparr>ended = Returned err, disk = fs, printed = [], index = []\<rparr>"
  using assms by (simp add: Sync_def)

text \<open>The theorem at the example, with a key file that does not exist.\<close>

theorem key_ring_failure_witness:
  "GPGCheck (ex_repo True ''/keys/none.gpg'')
   \<and> OpenKeyRing ex_env ex_fs (GPGKey (ex_repo True ''/keys/none.gpg'')) = Inl ErrNotExist
   \<and> ended (Sync ex_env (ex_repo True ''/keys/none.gpg'') ''/cache'' ''/mirror'' ex_fs
        :: (string \<times> bool, string) run) = Returned ErrNotExist
   \<and> disk (Sync ex_env (ex_repo True ''/keys/none.gpg'') ''/cache'' ''/mirror'' ex_fs
        :: (string \<times> bool, string) run) = ex_fs
   \<and> printed (Sync ex_env (ex_repo True ''/keys/none.gpg'') ''/cache'' ''/mirror'' ex_fs
        :: (string \<times> bool, string) run) = []"
proof -
  have g: "GPGCheck (ex_repo True ''/keys/none.gpg'')" by (simp add: ex_repo_def)
  have k: "OpenKeyRing ex_env ex_fs (GPGKey (ex_repo True ''/keys/none.gpg'')) = Inl ErrNotExist"
    by (simp add: ex_repo_def ex_env_def)
  from key_ring_failure_returns_at_once [OF g k, of "''/cache''" "''/mirror''"] g k
  show ?thesis by simp
qed

subsection \<open>C5: the signature check of a downloaded file\<close>

text \<open>
  C5: for a successful download, when signature checking is enabled and the check
  against the key ring fails, the file is deleted (it is absent afterwards) and the
  failure is printed; a deletion that fails is printed and goes no further; when
  signature checking is disabled the file is kept whatever its signature. Take a
  response without error, followed by any other responses. With checking enabled, the
  file opened and the check failed, the failure line is among the lines printed by the
  loop; if the deletion is not denied, the path holds no file when the loop has ended;
  if it is denied, the disk is as it was after this response and the deletion line is
  among the lines printed. With checking disabled the loop leaves the disk as it was.
  The loop has no way to end the run: its result is a disk and the printed lines.
\<close>

theorem bad_signature_is_deleted:
  assumes "Error resp = None"
  shows "(GPGCheck c \<longrightarrow> os_Open E fs (Response.Filename resp) = Inr f \<longrightarrow>
          rpm_GPGCheck E f keyring = Some err \<longrightarrow>
            Errorf (Some err) (GPGCheckValidationFailed (Label (Request resp)))
              \<in> set (snd (handle_responses E c keyring (resp # rest) (fs, out)))
            \<and> (case remove_denied E (Response.Filename resp) of
                 None \<Rightarrow>
                   fst (handle_responses E c keyring (resp # rest) (fs, out))
                     (Response.Filename resp) = None
               | Some err2 \<Rightarrow>
                   fst (handle_response E c keyring resp (fs, out)) = fs \<and>
                   Errorf (Some err2) (ErrorDeleting (Label (Request resp)))
                     \<in> set (snd (handle_responses E c keyring (resp # rest) (fs, out)))))
       \<and> (\<not> GPGCheck c \<longrightarrow>
            fst (handle_responses E c keyring (resp # rest) (fs, out)) = fs)"
proof (intro conjI impI)
  assume a: "GPGCheck c" "os_Open E fs (Response.Filename resp) = Inr f"
    "rpm_GPGCheck E f keyring = Some err"
  note h = handle_response_bad_signature [OF assms a, of out]
  let ?line = "Errorf (Some err) (GPGCheckValidationFailed (Label (Request resp)))"
  obtain fs1 out1 where s: "handle_response E c keyring resp (fs, out) = (fs1, out1)"
    by (cases "handle_response E c keyring resp (fs, out)")
  from h s have "?line \<in> set out1" by (auto split: option.splits)
  then show "?line \<in> set (snd (handle_responses E c keyring (resp # rest) (fs, out)))"
    using s by (simp add: handle_responses_keeps_lines)
  show "case remove_denied E (Response.Filename resp) of
          None \<Rightarrow>
            fst (handle_responses E c keyring (resp # rest) (fs, out)) (Response.Filename resp) = None
        | Some err2 \<Rightarrow>
            fst (handle_response E c keyring resp (fs, out)) = fs \<and>
            Errorf (Some err2) (ErrorDeleting (Label (Request resp)))
              \<in> set (snd (handle_responses E c keyring (resp # rest) (fs, out)))"
  proof (cases "remove_denied E (Response.Filename resp)")
    case None
    with h s have "fs1 (Response.Filename resp) = None" by auto
    then have "fst (handle_responses E c keyring rest (fs1, out1)) (Response.Filename resp) = None"
      by (rule handle_responses_absent [where fs = fs1 and path = "Response.Filename resp"])
    with None s show ?thesis by simp
  next
    case (Some err2)
    with h s have "fs1 = fs"
      and "Errorf (Some err2) (ErrorDeleting (Label (Request resp))) \<in> set out1" by auto
    with Some s show ?thesis by (simp add: handle_responses_keeps_lines)
  qed
next
  assume "\<not> GPGCheck c"
  then show "fst (handle_responses E c keyring (resp # rest) (fs, out)) = fs"
    by (rule handle_responses_no_check)
qed

text \<open>
  The theorem at the download of \<open>new\<close>, which is unsigned: deleted when the check is
  enabled; the deletion line when the deletion is denied; kept when the check is
  disabled.
\<close>

theorem bad_signature_witness:
  "Error resp_new = None
   \<and> fs_downloaded ''/mirror/new.rpm'' = Some (''d0'', False)
   \<and> fst (handle_responses ex_env (ex_repo True ''/keys/ok.gpg'') (Some ''key'') [resp_new]
            (fs_downloaded, [])) ''/mirror/new.rpm'' = None
   \<and> Errorf (Some (Failure ''signature'')) (GPGCheckValidationFailed (JobLabel 4 4 pkg_new))
        \<in> set (snd (handle_responses ex_env (ex_repo True ''/keys/ok.gpg'') (Some ''key'')
                       [resp_new] (fs_downloaded, [])))
   \<and> Errorf (Some (Failure ''EPERM'')) (ErrorDeleting (JobLabel 4 4 pkg_new))
        \<in> set (snd (handle_responses (ex_env\<lparr>remove_denied := \<lambda>path. Some (Failure ''EPERM'')\<rparr>)
                       (ex_repo True ''/keys/ok.gpg'') (Some ''key'') [resp_new] (fs_downloaded, [])))
   \<and> fst (handle_responses ex_env (ex_repo False []) None [resp_new] (fs_downloaded, [])) =
       fs_downloaded"
proof -
  let ?c = "ex_repo True ''/keys/ok.gpg''"
  let ?E2 = "ex_env\<lparr>remove_denied := \<lambda>path. Some (Failure ''EPERM'')\<rparr>"
  have e: "Error resp_new = None" by (simp add: resp_new_def)
  have n: "Response.Filename resp_new = ''/mirror/new.rpm''" by (simp add: resp_new_def)
  have l: "Label (Request resp_new) = JobLabel 4 4 pkg_new" by (simp add: resp_new_def)
  have p: "fs_downloaded ''/mirror/new.rpm'' = Some (''d0'', False)"
    by (simp add: fs_downloaded_def)
  have g: "GPGCheck ?c" by (simp add: ex_repo_def)
  have ng: "\<not> GPGCheck (ex_repo False [])" by (simp add: ex_repo_def)
  have o: "os_Open ex_env fs_downloaded (Response.Filename resp_new) = Inr (''d0'', False)"
    unfolding n by (simp add: os_Open_def p) (simp add: ex_env_def)
  have o2: "os_Open ?E2 fs_downloaded (Response.Filename resp_new) = Inr (''d0'', False)"
    unfolding n by (simp add: os_Open_def p) (simp add: ex_env_def)
  have s: "rpm_GPGCheck ex_env (''d0'', False) (Some ''key'') = Some (Failure ''signature'')"
    by (simp add: ex_env_def)
  have s2: "rpm_GPGCheck ?E2 (''d0'', False) (Some ''key'') = Some (Failure ''signature'')"
    by (simp add: ex_env_def)
  have r: "remove_denied ex_env ''/mirror/new.rpm'' = None" by (simp add: ex_env_def)
  have r2: "remove_denied ?E2 ''/mirror/new.rpm'' = Some (Failure ''EPERM'')" by simp
  note t = bad_signature_is_deleted [OF e, of ?c ex_env fs_downloaded "(''d0'', False)"
      "Some ''key''" "Failure ''signature''" "[]" "[]"]
  note t2 = bad_signature_is_deleted [OF e, of ?c ?E2 fs_downloaded "(''d0'', False)"
      "Some ''key''" "Failure ''signature''" "[]" "[]"]
  note t3 = bad_signature_is_deleted [OF e, of "ex_repo False []" ex_env fs_downloaded
      "(''d0'', False)" None "Failure ''signature''" "[]" "[]"]
  from conjunct1 [OF t] g o s
  have a: "Errorf (Some (Failure ''signature'')) (GPGCheckValidationFailed (Label (Request resp_new)))
              \<in> set (snd (handle_responses ex_env ?c (Some ''key'') [resp_new] (fs_downloaded, [])))
            \<and> (case remove_denied ex_env (Response.Filename resp_new) of
                 None \<Rightarrow>
                   fst (handle_responses ex_env ?c (Some ''key'') [resp_new] (fs_downloaded, []))
                     (Response.Filename resp_new) = None
               | Some err2 \<Rightarrow>
                   fst (handle_response ex_env ?c (Some ''key'') resp_new (fs_downloaded, [])) = fs_downloaded \<and>
                   Errorf (Some err2) (ErrorDeleting (Label (Request resp_new)))
                     \<in> set (snd (handle_responses ex_env ?c (Some ''key'') [resp_new] (fs_downloaded, []))))"
    by (elim impE) assumption+
  from conjunct1 [OF t2] g o2 s2
  have b: "Errorf (Some (Failure ''signature'')) (GPGCheckValidationFailed (Label (Request resp_new)))
              \<in> set (snd (handle_responses ?E2 ?c (Some ''key'') [resp_new] (fs_downloaded, [])))
            \<and> (case remove_denied ?E2 (Response.Filename resp_new) of
                 None \<Rightarrow>
                   fst (handle_responses ?E2 ?c (Some ''key'') [resp_new] (fs_downloaded, []))
                     (Response.Filename resp_new) = None
               | Some err2 \<Rightarrow>
                   fst (handle_response ?E2 ?c (Some ''key'') resp_new (fs_downloaded, [])) = fs_downloaded \<and>
                   Errorf (Some err2) (ErrorDeleting (Label (Request resp_new)))
                     \<in> set (snd (handle_responses ?E2 ?c (Some ''key'') [resp_new] (fs_downloaded, []))))"
    by (elim impE) assumption+
  from conjunct2 [OF t3] ng
  have c: "fst (handle_responses ex_env (ex_repo False []) None [resp_new] (fs_downloaded, [])) =
       fs_downloaded" by (rule mp)
  from a have a1: "Errorf (Some (Failure ''signature'')) (GPGCheckValidationFailed (JobLabel 4 4 pkg_new))
        \<in> set (snd (handle_responses ex_env ?c (Some ''key'') [resp_new] (fs_downloaded, [])))"
    unfolding l by (rule conjunct1)
  from conjunct2 [OF a] have a2: "fst (handle_responses ex_env ?c (Some ''key'') [resp_new]
            (fs_downloaded, [])) ''/mirror/new.rpm'' = None"
    unfolding n r by simp
  from conjunct2 [OF b] have b2: "Errorf (Some (Failure ''EPERM'')) (ErrorDeleting (JobLabel 4 4 pkg_new))
        \<in> set (snd (handle_responses ?E2 ?c (Some ''key'') [resp_new] (fs_downloaded, [])))"
    unfolding n r2 l by simp
  from e p a2 a1 b2 c show ?thesis by (intro conjI)
qed

subsection \<open>C6: the index is a fresh enumeration\<close>



subsection \<open>C7: a file that cannot be parsed\<close>

text \<open>
  C7: when a file on disk cannot be parsed during the index rebuild, the failure is
  fatal to the whole sync: the run is aborted, the file is not skipped. Let
  \<open>createrepo\<close> succeed on the disk that the downloads left, let \<open>filepath.Glob\<close>
  enumerate \<open>files\<close>, and let \<open>rpm.OpenPackageFile\<close> fail for one of them. Then
  \<open>files\<close> has a first file that fails, with error \<open>e\<close>; the run panics with \<open>e\<close>;
  and the index holds the packages of the files before that one only.
\<close>

theorem parse_failure_aborts_the_run:
  assumes "createrepo E (fst (sync_downloads E c keyring packagedir listing packages fs0 out0))
             (filepath_Join E packagedir ''/repodata'') = (None, fs1)"
    and "filepath_Glob E fs1 (filepath_Join E packagedir ''/*.rpm'') = Inr files"
    and "f \<in> set files"
    and "rpm_OpenPackageFile E fs1 f = Inl err"
  shows "\<exists>pre g post e.
           files = pre @ g # post
         \<and> (\<forall>h\<in>set pre. \<exists>m. rpm_OpenPackageFile E fs1 h = Inr m)
         \<and> rpm_OpenPackageFile E fs1 g = Inl e
         \<and> ended (sync_packages E c keyring packagedir listing packages fs0 out0) = Panicked e
         \<and> map Inr (index (sync_packages E c keyring packagedir listing packages fs0 out0)) =
             map (rpm_OpenPackageFile E fs1) pre"
proof -
  from first_failure_exists [OF assms(3,4)]
  obtain pre g post e where s: "files = pre @ g # post"
    and p: "\<forall>h\<in>set pre. \<exists>m. rpm_OpenPackageFile E fs1 h = Inr m"
    and g: "rpm_OpenPackageFile E fs1 g = Inl e" by blast
  note r = rebuild_first_failure [OF assms(1) assms(2) [unfolded s] p g]
  note k = sync_packages_rebuild [of E c keyring packagedir listing packages fs0 out0]
  from r k have "ended (sync_packages E c keyring packagedir listing packages fs0 out0) = Panicked e"
    and "map Inr (index (sync_packages E c keyring packagedir listing packages fs0 out0)) =
             map (rpm_OpenPackageFile E fs1) pre" by simp_all
  with s p g show ?thesis by blast
qed

text \<open>
  The theorem on the disk of the example with a file \<open>extra.rpm\<close> that is no package:
  the run panics with the error of that file.
\<close>

theorem parse_failure_witness:
  "rpm_OpenPackageFile ex_env fs_junk ''/mirror/extra.rpm'' = Inl (Failure ''not an rpm'')
   \<and> ended (sync_packages ex_env (ex_repo False []) None ''/mirror'' ex_files [pkg_a] fs_junk []
        :: (string \<times> bool, string) run) = Panicked (Failure ''not an rpm'')"
proof -
  let ?files = "[''/mirror/a.rpm'', ''/mirror/bad.rpm'', ''/mirror/big.rpm'', ''/mirror/extra.rpm'']"
  let ?run = "sync_packages ex_env (ex_repo False []) None ''/mirror'' ex_files [pkg_a] fs_junk []
        :: (string \<times> bool, string) run"
  have b: "Base (LocationHref pkg_a) = ''a.rpm''" by (simp add: pkg_a_def Base_def)
  have j: "filepath_Join ex_env ''/mirror'' ''a.rpm'' = ''/mirror/a.rpm''"
    by (simp add: ex_env_def)
  have sl: "search_local ex_env fs_junk pkg_a ''a.rpm'' ''/mirror/a.rpm'' ex_files = (True, [])"
    by (simp add: ex_files_def pkg_a_def ex_env_def fs_junk_def ex_fs_def)
  have m: "find_missing ex_env fs_junk ''/mirror'' ex_files [pkg_a] =
           ([], [Dprintf (CheckingForExistingPackages ''/mirror''), Dprintf (ScheduledPackages 0 0)])"
    by (simp add: find_missing_def Let_def b j sl)
  have fl: "FilterPackages ex_env (ex_repo False []) [pkg_a] = [pkg_a]" by (simp add: ex_env_def)
  have d: "fst (sync_downloads ex_env (ex_repo False []) None ''/mirror'' ex_files [pkg_a] fs_junk [])
           = fs_junk"
    by (simp add: sync_downloads_def fl m schedule_def)
  have c: "createrepo ex_env
             (fst (sync_downloads ex_env (ex_repo False []) None ''/mirror'' ex_files [pkg_a] fs_junk []))
             (filepath_Join ex_env ''/mirror'' ''/repodata'') = (None, fs_junk)"
    unfolding d by (simp add: ex_env_def)
  have g: "filepath_Glob ex_env fs_junk (filepath_Join ex_env ''/mirror'' ''/*.rpm'') = Inr ?files"
    by (rule ex_listing) (simp_all add: fs_junk_def ex_fs_def)
  have i: "''/mirror/extra.rpm'' \<in> set ?files" by simp
  have x: "rpm_OpenPackageFile ex_env fs_junk ''/mirror/extra.rpm'' = Inl (Failure ''not an rpm'')"
    by (simp add: ex_env_def fs_junk_def)
  have only: "\<forall>f\<in>set ?files. \<forall>e. rpm_OpenPackageFile ex_env fs_junk f = Inl e \<longrightarrow>
                e = Failure ''not an rpm''"
    by (simp add: ex_env_def fs_junk_def ex_fs_def)
  from parse_failure_aborts_the_run [OF c g i x]
  obtain pre h post e where s: "?files = pre @ h # post"
    and f: "rpm_OpenPackageFile ex_env fs_junk h = Inl e"
    and r: "ended ?run = Panicked e"
    by blast
  have "h \<in> set (pre @ h # post)" by simp
  then have "h \<in> set ?files" unfolding s [symmetric] .
  with only f have "e = Failure ''not an rpm''" by blast
  with x r show ?thesis by simp
qed

subsection \<open>C8: a failed download\<close>



end
